theory Spec2Isabelle
  imports Complex_Main "HOL-Library.Sublist"
begin

section \<open>Numbers and strings\<close>

text \<open>
  Python floats are modelled as exact reals: every literal stands for its decimal value and
  the arithmetic is exact. Strings are byte lists (UTF-8).

  \<open>py_round x n\<close> is Python's \<open>round(x, n)\<close> on such a value: the nearest multiple of
  \<open>10 ^ -n\<close>, a tie going to the even one.
\<close>

definition round_half_even :: "real \<Rightarrow> int" where
  "round_half_even y =
     (let f = \<lfloor>y\<rfloor>; d = y - of_int f
      in if d < 1 / 2 then f else if 1 / 2 < d then f + 1 else if even f then f else f + 1)"

definition py_round :: "real \<Rightarrow> nat \<Rightarrow> real" where
  "py_round x n = of_int (round_half_even (x * 10 ^ n)) / 10 ^ n"

text \<open>\<open>str.upper\<close> on ASCII text (the category names are ASCII).\<close>

definition upper_char :: "char \<Rightarrow> char" where
  "upper_char c =
     (case map_of (zip ''abcdefghijklmnopqrstuvwxyz'' ''ABCDEFGHIJKLMNOPQRSTUVWXYZ'') c of
        Some u \<Rightarrow> u
      | None \<Rightarrow> c)"

definition upper :: "string \<Rightarrow> string" where
  "upper s = map upper_char s"

section \<open>signals/signal\_types.py\<close>

datatype direction = Bullish | Bearish | Neutral

fun direction_str :: "direction \<Rightarrow> string" where
  "direction_str Bullish = ''bullish''"
| "direction_str Bearish = ''bearish''"
| "direction_str Neutral = ''neutral''"

text \<open>The \<open>data_points\<close> dictionary is an audit trail that no computation reads back; it is left out.\<close>

record signal =
  name :: string
  direction :: direction
  strength :: real
  confidence :: real
  reasoning :: string

section \<open>contradiction\_engine.py\<close>

datatype severity = High | Medium | Low

record contradiction =
  signal_a :: signal
  signal_b :: signal
  severity :: severity
  category :: string
  description :: string
  historical_resolution :: string

type_synonym rule = "string \<times> string \<times> real \<times> string \<times> string"

definition CONTRADICTION_RULES :: "rule list" where
  "CONTRADICTION_RULES =
    [(''insider_activity'', ''valuation'', 0.3, ''smart_money_divergence'',
        ''Insider activity is more predictive than analyst ratings''),
     (''technical'', ''valuation'', 0.4, ''technical_fundamental_divergence'',
        ''Fundamentals tend to dominate over 3-6 months; technicals over 1-4 weeks''),
     (''options'', ''momentum'', 0.3, ''flow_vs_trend'',
        ''Options flow often leads momentum by 1-2 weeks''),
     (''insider_activity'', ''momentum'', 0.3, ''insider_vs_market'',
        ''Insiders have long-term edge; momentum can persist short-term''),
     (''insider_activity'', ''options'', 0.3, ''smart_money_vs_flow'',
        ''Both are informed-trader signals; conflict suggests uncertainty''),
     (''macro'', ''momentum'', 0.3, ''macro_vs_micro'',
        ''Macro headwinds eventually override single-stock momentum''),
     (''earnings'', ''valuation'', 0.3, ''earnings_risk'',
        ''Upcoming earnings can resolve valuation debates quickly''),
     (''news_sentiment'', ''insider_activity'', 0.3, ''news_vs_insider'',
        ''Positive news with insider selling suggests insiders know more than headlines''),
     (''news_sentiment'', ''momentum'', 0.3, ''news_vs_price'',
        ''Positive news but declining price suggests market has already priced it in'')]"

definition classify_severity :: "real \<Rightarrow> real \<Rightarrow> real \<Rightarrow> severity" where
  "classify_severity combined_strength conf_a conf_b =
     (let avg_conf = (conf_a + conf_b) / 2;
          score = combined_strength * 0.6 + avg_conf * 0.4
      in if score \<ge> 0.6 then High
         else if score \<ge> 0.4 then Medium
         else Low)"

definition check_pair :: "signal \<Rightarrow> signal \<Rightarrow> real \<Rightarrow> string \<Rightarrow> string \<Rightarrow> contradiction option" where
  "check_pair sig_a sig_b min_strength cat resolution =
     (if direction sig_a = Neutral \<or> direction sig_b = Neutral then None
      else if direction sig_a = direction sig_b then None
      else if strength sig_a < min_strength \<or> strength sig_b < min_strength then None
      else if confidence sig_a < 0.2 \<and> confidence sig_b < 0.2 then None
      else
        let combined_strength = (strength sig_a + strength sig_b) / 2;
            sev = classify_severity combined_strength (confidence sig_a) (confidence sig_b);
            descr = upper (name sig_a) @ '' says '' @ direction_str (direction sig_a)
                      @ '' ('' @ reasoning sig_a @ '') ''
                      @ ''but '' @ upper (name sig_b) @ '' says '' @ direction_str (direction sig_b)
                      @ '' ('' @ reasoning sig_b @ '')''
        in Some \<lparr>signal_a = sig_a, signal_b = sig_b, severity = sev, category = cat,
                  description = descr, historical_resolution = resolution\<rparr>)"

text \<open>The dictionary \<open>{s.name: s for s in signals}\<close>: a later signal replaces an earlier one
  of the same name.\<close>

definition signal_map :: "signal list \<Rightarrow> string \<rightharpoonup> signal" where
  "signal_map signals = map_of (rev (map (\<lambda>s. (name s, s)) signals))"

text \<open>The loop over the rule table, appending to \<open>contradictions\<close>.\<close>

fun detect_loop :: "(string \<rightharpoonup> signal) \<Rightarrow> rule list \<Rightarrow> contradiction list \<Rightarrow> contradiction list" where
  "detect_loop m [] contradictions = contradictions"
| "detect_loop m ((name_a, name_b, min_str, cat, resolution) # rules) contradictions =
     (case m name_a of
        None \<Rightarrow> detect_loop m rules contradictions
      | Some sig_a \<Rightarrow>
          (case m name_b of
             None \<Rightarrow> detect_loop m rules contradictions
           | Some sig_b \<Rightarrow>
               (case check_pair sig_a sig_b min_str cat resolution of
                  None \<Rightarrow> detect_loop m rules contradictions
                | Some c \<Rightarrow> detect_loop m rules (contradictions @ [c]))))"

fun severity_key :: "severity \<Rightarrow> nat" where
  "severity_key High = 0"
| "severity_key Medium = 1"
| "severity_key Low = 2"

text \<open>\<open>list.sort(key=...)\<close> is a stable sort; \<open>sort_key\<close> is the stable insertion sort.\<close>

definition detect :: "signal list \<Rightarrow> contradiction list" where
  "detect signals =
     sort_key (\<lambda>c. severity_key (severity c))
       (detect_loop (signal_map signals) CONTRADICTION_RULES [])"

definition overall_severity :: "contradiction list \<Rightarrow> string" where
  "overall_severity contradictions =
     (if contradictions = [] then ''none''
      else let severities = map severity contradictions
           in if High \<in> set severities then ''high''
              else if Medium \<in> set severities then ''medium''
              else ''low'')"

definition alpha_potential_fn :: "int \<Rightarrow> int \<Rightarrow> int \<Rightarrow> string" where
  "alpha_potential_fn total_n high medium =
     (if high \<ge> 2 \<or> (high \<ge> 1 \<and> medium \<ge> 2) then ''high''
      else if high \<ge> 1 \<or> medium \<ge> 2 \<or> total_n \<ge> 3 then ''medium''
      else if total_n \<ge> 1 then ''low''
      else ''none'')"

record score =
  consensus_direction :: string
  consensus_strength :: real
  bullish_count :: nat
  bearish_count :: nat
  neutral_count :: nat
  contradiction_count :: nat
  contradiction_severity :: string
  alpha_potential :: string
  key_contradictions :: "string list"
  signal_summary :: "string \<rightharpoonup> (direction \<times> real \<times> real \<times> string)"

definition bullish_of :: "signal list \<Rightarrow> signal list" where
  "bullish_of signals = filter (\<lambda>s. direction s = Bullish \<and> confidence s > 0) signals"

definition bearish_of :: "signal list \<Rightarrow> signal list" where
  "bearish_of signals = filter (\<lambda>s. direction s = Bearish \<and> confidence s > 0) signals"

definition neutral_of :: "signal list \<Rightarrow> signal list" where
  "neutral_of signals = filter (\<lambda>s. direction s = Neutral \<and> confidence s > 0) signals"

definition bull_weight :: "signal list \<Rightarrow> real" where
  "bull_weight signals = sum_list (map (\<lambda>s. strength s * confidence s) (bullish_of signals))"

definition bear_weight :: "signal list \<Rightarrow> real" where
  "bear_weight signals = sum_list (map (\<lambda>s. strength s * confidence s) (bearish_of signals))"

definition total_weight :: "signal list \<Rightarrow> real" where
  "total_weight signals = bull_weight signals + bear_weight signals"

text \<open>The local variables \<open>consensus_direction\<close> and \<open>consensus_strength\<close> of
  \<open>score_overall\<close>, before the result dictionary rounds the strength.\<close>

definition consensus :: "signal list \<Rightarrow> string \<times> real" where
  "consensus signals =
     (if total_weight signals = 0 then (''neutral'', 0.0)
      else if bull_weight signals > bear_weight signals * 1.3
        then (''bullish'', bull_weight signals / (total_weight signals + 0.001))
      else if bear_weight signals > bull_weight signals * 1.3
        then (''bearish'', bear_weight signals / (total_weight signals + 0.001))
      else (''mixed'',
            1.0 - \<bar>bull_weight signals - bear_weight signals\<bar> / (total_weight signals + 0.001)))"

definition score_overall :: "signal list \<Rightarrow> contradiction list \<Rightarrow> score" where
  "score_overall signals contradictions =
     (let high_count = int (length (filter (\<lambda>c. severity c = High) contradictions));
          med_count = int (length (filter (\<lambda>c. severity c = Medium) contradictions))
      in \<lparr>consensus_direction = fst (consensus signals),
          consensus_strength = py_round (snd (consensus signals)) 2,
          bullish_count = length (bullish_of signals),
          bearish_count = length (bearish_of signals),
          neutral_count = length (neutral_of signals),
          contradiction_count = length contradictions,
          contradiction_severity = overall_severity contradictions,
          alpha_potential = alpha_potential_fn (int (length contradictions)) high_count med_count,
          key_contradictions = map description (take 3 contradictions),
          signal_summary =
            map_of (rev (map (\<lambda>s. (name s, (direction s, strength s, confidence s, reasoning s)))
                           signals))\<rparr>)"

section \<open>data\_collectors: the records the extractors read\<close>

text \<open>
  Only the fields that an extractor reads are kept. \<open>history_30d\<close> is a data frame: its
  \<open>Close\<close> column (one entry per row, so its length is the frame's) and its \<open>Volume\<close>
  column when the frame has one. A field of type \<open>Optional[...]\<close> is an \<open>option\<close>.
  An insider transaction is kept as its text \<open>str(tx).lower()\<close>, an earnings surprise as
  its dictionary, a news item as its title.
\<close>

record frame =
  Close :: "real list"
  Volume :: "real list option"

record stock_data =
  current_price :: real
  history_30d :: "frame option"
  ma_50 :: real
  ma_200 :: real
  rsi_14 :: real
  analyst_target_mean :: real
  analyst_count :: int
  insider_transactions :: "string list"
  insider_net_shares :: int
  insiders_pct_held :: real
  institutions_pct_held :: real
  put_call_ratio_oi :: real
  atm_call_iv :: real
  atm_put_iv :: real
  iv_skew :: real
  next_earnings_date :: "int option"
  days_to_earnings :: "int option"
  last_4_surprises :: "(string \<times> real) list list"
  pe_trailing :: real
  pe_forward :: real
  pb :: real
  ev_ebitda :: real
  beta :: real
  week52_high :: real
  week52_low :: real

record macro_data =
  vix :: real
  vix_5d_change :: real
  treasury_10y :: real
  treasury_2y :: real
  yield_spread_10y2y :: real
  gold_price :: real
  oil_price :: real
  sector_returns_1m :: "(string \<times> real) list"
  stock_sector :: string
  sector_vs_spy :: real

record news_data =
  ticker_news :: "string list"
  macro_news :: "string list"
  ticker_sentiment_score :: real
  macro_sentiment_score :: real
  news_volume :: int
  high_importance_count :: int

text \<open>\<open>len(data.history_30d)\<close>, for a frame that is not \<open>None\<close>.\<close>

definition frame_len :: "frame \<Rightarrow> nat" where
  "frame_len h = length (Close h)"

text \<open>
  Every extractor ends with \<open>_build_reasoning\<close>, an f-string that formats floats
  (\<open>:.0f\<close>, \<open>:+.1f\<close>). Number formatting is outside this model of numbers, so the
  extractors take the finished functions as an argument.
\<close>

record reasoners =
  technical_reasoning :: "stock_data \<Rightarrow> direction \<Rightarrow> string"
  valuation_reasoning :: "stock_data \<Rightarrow> direction \<Rightarrow> string"
  insider_reasoning :: "stock_data \<Rightarrow> direction \<Rightarrow> string"
  earnings_reasoning :: "stock_data \<Rightarrow> direction \<Rightarrow> string"
  options_reasoning :: "stock_data \<Rightarrow> direction \<Rightarrow> string"
  momentum_reasoning :: "stock_data \<Rightarrow> direction \<Rightarrow> string"
  macro_reasoning :: "macro_data \<Rightarrow> direction \<Rightarrow> string"
  news_reasoning :: "news_data \<Rightarrow> direction \<Rightarrow> string"

section \<open>signals/technical\_signal.py\<close>

definition assess_confidence_technical :: "stock_data \<Rightarrow> real" where
  "assess_confidence_technical data =
     (let score = 0.0;
          score = (if (case history_30d data of None \<Rightarrow> False | Some h \<Rightarrow> frame_len h \<ge> 20)
                   then score + 0.4 else score);
          score = (if rsi_14 data > 0 then score + 0.2 else score);
          score = (if ma_50 data > 0 then score + 0.2 else score);
          score = (if ma_200 data > 0 then score + 0.2 else score)
      in score)"

definition score_rsi :: "stock_data \<Rightarrow> real list \<Rightarrow> real list" where
  "score_rsi data scores =
     (if rsi_14 data \<le> 0 then scores
      else if rsi_14 data > 80 then scores @ [-0.8]
      else if rsi_14 data > 70 then scores @ [-0.5]
      else if rsi_14 data < 20 then scores @ [0.8]
      else if rsi_14 data < 30 then scores @ [0.5]
      else if 45 \<le> rsi_14 data \<and> rsi_14 data \<le> 55 then scores @ [0.0]
      else if rsi_14 data > 55 then scores @ [0.2]
      else scores @ [-0.2])"

definition score_moving_averages :: "stock_data \<Rightarrow> real list \<Rightarrow> real list" where
  "score_moving_averages data scores =
     (let price = current_price data in
      if price \<le> 0 then scores
      else
        let scores =
              (if ma_50 data > 0 then
                 let pct_vs_50 = (price - ma_50 data) / ma_50 data
                 in if pct_vs_50 > 0.10 then scores @ [0.4]
                    else if pct_vs_50 > 0 then scores @ [0.2]
                    else if pct_vs_50 > -0.10 then scores @ [-0.2]
                    else scores @ [-0.4]
               else scores);
            scores =
              (if ma_200 data > 0 then
                 let pct_vs_200 = (price - ma_200 data) / ma_200 data
                 in if pct_vs_200 > 0.15 then scores @ [0.5]
                    else if pct_vs_200 > 0 then scores @ [0.3]
                    else if pct_vs_200 > -0.15 then scores @ [-0.3]
                    else scores @ [-0.5]
               else scores);
            scores =
              (if ma_50 data > 0 \<and> ma_200 data > 0 then
                 (if ma_50 data > ma_200 data then scores @ [0.3] else scores @ [-0.3])
               else scores)
        in scores)"

definition score_52w_position :: "stock_data \<Rightarrow> real list \<Rightarrow> real list" where
  "score_52w_position data scores =
     (if week52_high data \<le> 0 \<or> week52_low data \<le> 0 then scores
      else
        let price = current_price data;
            range_52w = week52_high data - week52_low data
        in if range_52w \<le> 0 then scores
           else
             let position = (price - week52_low data) / range_52w
             in if position > 0.95 then scores @ [-0.3]
                else if position < 0.2 then scores @ [0.3]
                else scores)"

text \<open>The list \<open>scores\<close> after the scoring calls of \<open>extract\<close>.\<close>

definition technical_scores :: "stock_data \<Rightarrow> real list" where
  "technical_scores data = score_52w_position data (score_moving_averages data (score_rsi data []))"

definition extract_technical :: "reasoners \<Rightarrow> stock_data \<Rightarrow> signal" where
  "extract_technical rs data =
     (let conf = assess_confidence_technical data;
          scores = technical_scores data
      in if scores = [] then
           \<lparr>name = ''technical'', direction = Neutral, strength = 0.0, confidence = 0.0,
            reasoning = ''Insufficient technical data''\<rparr>
         else
           let avg_score = sum_list scores / real (length scores);
               dir = (if avg_score > 0.1 then Bullish
                      else if avg_score < -0.1 then Bearish else Neutral);
               str = min \<bar>avg_score\<bar> 1.0
           in \<lparr>name = ''technical'', direction = dir, strength = py_round str 2,
               confidence = py_round conf 2, reasoning = technical_reasoning rs data dir\<rparr>)"

section \<open>signals/valuation\_signal.py\<close>

definition assess_confidence_valuation :: "stock_data \<Rightarrow> real" where
  "assess_confidence_valuation data =
     (let score = 0.0;
          score = (if pe_trailing data > 0 \<or> pe_forward data > 0 then score + 0.3 else score);
          score = (if analyst_target_mean data > 0 then score + 0.3 else score);
          score = (if pb data > 0 then score + 0.2 else score);
          score = (if ev_ebitda data > 0 then score + 0.2 else score)
      in score)"

definition score_pe :: "stock_data \<Rightarrow> real list \<Rightarrow> real list" where
  "score_pe data scores =
     (let pe = (if pe_forward data > 0 then pe_forward data else pe_trailing data) in
      if pe \<le> 0 then scores
      else
        let scores =
              (if pe_forward data > 0 \<and> pe_trailing data > 0 then
                 let pe_contraction = pe_forward data / pe_trailing data
                 in if pe_contraction < 0.7 then scores @ [0.4]
                    else if pe_contraction < 0.9 then scores @ [0.2]
                    else scores
               else scores)
        in if pe > 60 then scores @ [-0.6]
           else if pe > 40 then scores @ [-0.3]
           else if pe > 25 then scores @ [0.0]
           else if pe > 15 then scores @ [0.2]
           else scores @ [0.4])"

definition score_analyst_target :: "stock_data \<Rightarrow> real list \<Rightarrow> real list" where
  "score_analyst_target data scores =
     (if analyst_target_mean data \<le> 0 \<or> current_price data \<le> 0 then scores
      else
        let upside = (analyst_target_mean data - current_price data) / current_price data;
            weight = (if analyst_count data \<ge> 10 then 1.0 else 0.6)
        in if upside > 0.30 then scores @ [0.7 * weight]
           else if upside > 0.15 then scores @ [0.4 * weight]
           else if upside > 0.05 then scores @ [0.2 * weight]
           else if upside > -0.10 then scores @ [0.0]
           else if upside > -0.20 then scores @ [-0.3 * weight]
           else scores @ [-0.6 * weight])"

definition score_pb :: "stock_data \<Rightarrow> real list \<Rightarrow> real list" where
  "score_pb data scores =
     (if pb data \<le> 0 then scores
      else if pb data > 15 then scores @ [-0.3]
      else if pb data > 8 then scores @ [-0.1]
      else if pb data < 1.5 then scores @ [0.3]
      else scores)"

definition score_ev_ebitda :: "stock_data \<Rightarrow> real list \<Rightarrow> real list" where
  "score_ev_ebitda data scores =
     (if ev_ebitda data \<le> 0 then scores
      else if ev_ebitda data > 30 then scores @ [-0.3]
      else if ev_ebitda data > 20 then scores @ [-0.1]
      else if ev_ebitda data < 10 then scores @ [0.3]
      else scores)"

definition valuation_scores :: "stock_data \<Rightarrow> real list" where
  "valuation_scores data =
     score_ev_ebitda data (score_pb data (score_analyst_target data (score_pe data [])))"

definition extract_valuation :: "reasoners \<Rightarrow> stock_data \<Rightarrow> signal" where
  "extract_valuation rs data =
     (let conf = assess_confidence_valuation data;
          scores = valuation_scores data
      in if scores = [] then
           \<lparr>name = ''valuation'', direction = Neutral, strength = 0.0, confidence = 0.0,
            reasoning = ''Insufficient valuation data''\<rparr>
         else
           let avg_score = sum_list scores / real (length scores);
               dir = (if avg_score > 0.1 then Bullish
                      else if avg_score < -0.1 then Bearish else Neutral);
               str = min \<bar>avg_score\<bar> 1.0
           in \<lparr>name = ''valuation'', direction = dir, strength = py_round str 2,
               confidence = py_round conf 2, reasoning = valuation_reasoning rs data dir\<rparr>)"

section \<open>signals/insider\_signal.py\<close>

text \<open>\<open>sub in text\<close> on strings.\<close>

fun contains :: "string \<Rightarrow> string \<Rightarrow> bool" where
  "contains sub [] = (sub = [])"
| "contains sub (c # cs) = (prefix sub (c # cs) \<or> contains sub cs)"

definition assess_confidence_insider :: "stock_data \<Rightarrow> real" where
  "assess_confidence_insider data =
     (let score = 0.0;
          score = (if insider_transactions data \<noteq> [] then
                     (let score = score + 0.5
                      in if length (insider_transactions data) \<ge> 5 then score + 0.2 else score)
                   else score);
          score = (if insiders_pct_held data > 0 then score + 0.15 else score);
          score = (if institutions_pct_held data > 0 then score + 0.15 else score)
      in min score 1.0)"

definition score_net_shares :: "stock_data \<Rightarrow> real list \<Rightarrow> real list" where
  "score_net_shares data scores =
     (if insider_net_shares data = 0 \<and> insider_transactions data = [] then scores
      else if insider_net_shares data > 0 then scores @ [0.7]
      else if insider_net_shares data < 0 then
        let tx_count = (if insider_transactions data \<noteq> []
                        then int (length (insider_transactions data)) else 1);
            sell_intensity =
              min (real_of_int \<bar>insider_net_shares data\<bar> / real_of_int (max tx_count 1) / 10000) 1.0
        in scores @ [-0.3 - 0.4 * sell_intensity]
      else scores)"

text \<open>The loop of \<open>_score_transaction_pattern\<close> that counts \<open>(buys, sells)\<close>.\<close>

fun count_buys_sells :: "string list \<Rightarrow> nat \<times> nat \<Rightarrow> nat \<times> nat" where
  "count_buys_sells [] (buys, sells) = (buys, sells)"
| "count_buys_sells (text # txs) (buys, sells) =
     (if contains ''purchase'' text \<or> contains ''buy'' text then count_buys_sells txs (buys + 1, sells)
      else if contains ''sale'' text \<or> contains ''sell'' text then count_buys_sells txs (buys, sells + 1)
      else count_buys_sells txs (buys, sells))"

definition score_transaction_pattern :: "stock_data \<Rightarrow> real list \<Rightarrow> real list" where
  "score_transaction_pattern data scores =
     (if insider_transactions data = [] then scores
      else
        let (buys, sells) = count_buys_sells (insider_transactions data) (0, 0);
            total_n = buys + sells
        in if total_n = 0 then scores
           else
             let buy_ratio = real buys / real total_n
             in if buy_ratio > 0.6 then scores @ [0.6]
                else if buy_ratio > 0.3 then scores @ [0.1]
                else if buy_ratio < 0.1 \<and> sells \<ge> 3 then scores @ [-0.7]
                else if buy_ratio < 0.2 then scores @ [-0.4]
                else scores)"

definition score_institutional_ownership :: "stock_data \<Rightarrow> real list \<Rightarrow> real list" where
  "score_institutional_ownership data scores =
     (if insiders_pct_held data > 0 then
        (if insiders_pct_held data > 0.10 then scores @ [0.2] else scores)
      else scores)"

definition insider_scores :: "stock_data \<Rightarrow> real list" where
  "insider_scores data =
     score_institutional_ownership data (score_transaction_pattern data (score_net_shares data []))"

definition extract_insider :: "reasoners \<Rightarrow> stock_data \<Rightarrow> signal" where
  "extract_insider rs data =
     (let conf = assess_confidence_insider data;
          scores = insider_scores data
      in if scores = [] then
           \<lparr>name = ''insider_activity'', direction = Neutral, strength = 0.0, confidence = 0.0,
            reasoning = ''No insider transaction data available''\<rparr>
         else
           let avg_score = sum_list scores / real (length scores);
               dir = (if avg_score > 0.1 then Bullish
                      else if avg_score < -0.1 then Bearish else Neutral);
               str = min \<bar>avg_score\<bar> 1.0
           in \<lparr>name = ''insider_activity'', direction = dir, strength = py_round str 2,
               confidence = py_round conf 2, reasoning = insider_reasoning rs data dir\<rparr>)"

section \<open>signals/earnings\_signal.py\<close>

definition assess_confidence_earnings :: "stock_data \<Rightarrow> real" where
  "assess_confidence_earnings data =
     (let score = 0.0;
          score = (if last_4_surprises data \<noteq> []
                   then score + (0.3 + min (real (length (last_4_surprises data)) * 0.1) 0.4)
                   else score);
          score = (if next_earnings_date data \<noteq> None then score + 0.3 else score)
      in min score 1.0)"

text \<open>The loop of \<open>_score_surprise_history\<close> that counts \<open>(beats, misses)\<close>;
  \<open>s.get("surprise_pct", 0)\<close> reads the dictionary with a default.\<close>

fun count_beats_misses :: "(string \<times> real) list list \<Rightarrow> nat \<times> nat \<Rightarrow> nat \<times> nat" where
  "count_beats_misses [] (beats, misses) = (beats, misses)"
| "count_beats_misses (s # ss) (beats, misses) =
     (let pct = (case map_of s ''surprise_pct'' of None \<Rightarrow> 0 | Some v \<Rightarrow> v)
      in if pct > 0 then count_beats_misses ss (beats + 1, misses)
         else if pct < 0 then count_beats_misses ss (beats, misses + 1)
         else count_beats_misses ss (beats, misses))"

definition score_surprise_history :: "stock_data \<Rightarrow> real list \<Rightarrow> real list" where
  "score_surprise_history data scores =
     (if last_4_surprises data = [] then scores
      else
        let (beats, misses) = count_beats_misses (last_4_surprises data) (0, 0)
        in if beats = length (last_4_surprises data) \<and> beats \<ge> 3 then scores @ [0.6]
           else if beats \<ge> 3 then scores @ [0.4]
           else if misses \<ge> 3 then scores @ [-0.5]
           else if beats > misses then scores @ [0.2]
           else if misses > beats then scores @ [-0.2]
           else scores)"

definition score_earnings_proximity :: "stock_data \<Rightarrow> real list \<Rightarrow> real list" where
  "score_earnings_proximity data scores =
     (case days_to_earnings data of
        None \<Rightarrow> scores
      | Some d \<Rightarrow> (if d \<le> 3 then scores @ [0.0] else scores))"

definition earnings_scores :: "stock_data \<Rightarrow> real list" where
  "earnings_scores data = score_earnings_proximity data (score_surprise_history data [])"

definition extract_earnings :: "reasoners \<Rightarrow> stock_data \<Rightarrow> signal" where
  "extract_earnings rs data =
     (let conf = assess_confidence_earnings data;
          scores = earnings_scores data
      in if scores = [] then
           \<lparr>name = ''earnings'', direction = Neutral, strength = 0.0, confidence = 0.0,
            reasoning = ''No earnings data available''\<rparr>
         else
           let avg_score = sum_list scores / real (length scores);
               dir = (if avg_score > 0.1 then Bullish
                      else if avg_score < -0.1 then Bearish else Neutral);
               str = min \<bar>avg_score\<bar> 1.0
           in \<lparr>name = ''earnings'', direction = dir, strength = py_round str 2,
               confidence = py_round conf 2, reasoning = earnings_reasoning rs data dir\<rparr>)"

section \<open>signals/options\_signal.py\<close>

definition assess_confidence_options :: "stock_data \<Rightarrow> real" where
  "assess_confidence_options data =
     (let score = 0.0;
          score = (if put_call_ratio_oi data > 0 then score + 0.4 else score);
          score = (if atm_call_iv data > 0 then score + 0.3 else score);
          score = (if atm_put_iv data > 0 then score + 0.3 else score)
      in score)"

definition score_put_call_ratio :: "stock_data \<Rightarrow> real list \<Rightarrow> real list" where
  "score_put_call_ratio data scores =
     (if put_call_ratio_oi data \<le> 0 then scores
      else
        let pcr = put_call_ratio_oi data
        in if pcr < 0.5 then scores @ [0.6]
           else if pcr < 0.7 then scores @ [0.3]
           else if pcr < 1.0 then scores @ [0.0]
           else if pcr < 1.3 then scores @ [-0.3]
           else scores @ [-0.6])"

definition score_iv_skew :: "stock_data \<Rightarrow> real list \<Rightarrow> real list" where
  "score_iv_skew data scores =
     (if iv_skew data = 0 \<and> atm_call_iv data \<le> 0 then scores
      else if iv_skew data > 0.10 then scores @ [-0.5]
      else if iv_skew data > 0.03 then scores @ [-0.2]
      else if iv_skew data < -0.05 then scores @ [0.3]
      else scores @ [0.0])"

text \<open>\<open>_score_iv_level\<close> only records data points; it appends no score.\<close>

definition score_iv_level :: "stock_data \<Rightarrow> real list \<Rightarrow> real list" where
  "score_iv_level data scores = scores"

definition options_scores :: "stock_data \<Rightarrow> real list" where
  "options_scores data = score_iv_level data (score_iv_skew data (score_put_call_ratio data []))"

definition extract_options :: "reasoners \<Rightarrow> stock_data \<Rightarrow> signal" where
  "extract_options rs data =
     (let conf = assess_confidence_options data;
          scores = options_scores data
      in if scores = [] then
           \<lparr>name = ''options'', direction = Neutral, strength = 0.0, confidence = 0.0,
            reasoning = ''No options data available''\<rparr>
         else
           let avg_score = sum_list scores / real (length scores);
               dir = (if avg_score > 0.1 then Bullish
                      else if avg_score < -0.1 then Bearish else Neutral);
               str = min \<bar>avg_score\<bar> 1.0
           in \<lparr>name = ''options'', direction = dir, strength = py_round str 2,
               confidence = py_round conf 2, reasoning = options_reasoning rs data dir\<rparr>)"

section \<open>signals/momentum\_signal.py\<close>

text \<open>
  The returns are quotients of numpy floats, where a division by zero does not raise: it
  gives an infinity or NaN, and every comparison with NaN is false. Prices and volumes
  themselves are finite numbers, and both columns have one entry per row of the frame.
\<close>

datatype npfloat = Fin real | PosInf | NegInf | NaN

definition np_div :: "real \<Rightarrow> real \<Rightarrow> npfloat" where
  "np_div a b =
     (if b \<noteq> 0 then Fin (a / b) else if a > 0 then PosInf else if a < 0 then NegInf else NaN)"

fun np_gt :: "npfloat \<Rightarrow> real \<Rightarrow> bool" where
  "np_gt (Fin x) y = (x > y)"
| "np_gt PosInf y = True"
| "np_gt NegInf y = False"
| "np_gt NaN y = False"

fun np_lt :: "npfloat \<Rightarrow> real \<Rightarrow> bool" where
  "np_lt (Fin x) y = (x < y)"
| "np_lt PosInf y = False"
| "np_lt NegInf y = True"
| "np_lt NaN y = False"

text \<open>\<open>col.iloc[-k]\<close> for \<open>1 \<le> k \<le> len(col)\<close> (every caller checks the length first),
  \<open>col.iloc[-k:]\<close> and \<open>.mean()\<close>.\<close>

definition iloc_neg :: "real list \<Rightarrow> nat \<Rightarrow> real" where
  "iloc_neg col k = col ! (length col - k)"

definition iloc_tail :: "real list \<Rightarrow> nat \<Rightarrow> real list" where
  "iloc_tail col k = drop (length col - k) col"

definition mean :: "real list \<Rightarrow> real" where
  "mean xs = sum_list xs / real (length xs)"

definition assess_confidence_momentum :: "stock_data \<Rightarrow> real" where
  "assess_confidence_momentum data =
     (case history_30d data of
        None \<Rightarrow> 0.0
      | Some h \<Rightarrow>
          if frame_len h < 10 then 0.0
          else
            let score = 0.4;
                score = (if frame_len h \<ge> 20 then score + 0.3 else score);
                score = (if Volume h \<noteq> None then score + 0.3 else score)
            in min score 1.0)"

definition score_price_trend :: "stock_data \<Rightarrow> real list \<Rightarrow> real list" where
  "score_price_trend data scores =
     (case history_30d data of
        None \<Rightarrow> scores
      | Some h \<Rightarrow>
          if frame_len h < 5 then scores
          else
            let close = Close h;
                scores =
                  (if length close \<ge> 5 then
                     let ret_5d = np_div (iloc_neg close 1 - iloc_neg close 5) (iloc_neg close 5)
                     in if np_gt ret_5d 0.05 then scores @ [0.5]
                        else if np_gt ret_5d 0.02 then scores @ [0.3]
                        else if np_gt ret_5d (-0.02) then scores @ [0.0]
                        else if np_gt ret_5d (-0.05) then scores @ [-0.3]
                        else scores @ [-0.5]
                   else scores);
                scores =
                  (if length close \<ge> 20 then
                     let ret_20d = np_div (iloc_neg close 1 - iloc_neg close 20) (iloc_neg close 20)
                     in if np_gt ret_20d 0.10 then scores @ [0.6]
                        else if np_gt ret_20d 0.03 then scores @ [0.3]
                        else if np_gt ret_20d (-0.03) then scores @ [0.0]
                        else if np_gt ret_20d (-0.10) then scores @ [-0.3]
                        else scores @ [-0.6]
                   else scores)
            in scores)"

definition score_volume_confirmation :: "stock_data \<Rightarrow> real list \<Rightarrow> real list" where
  "score_volume_confirmation data scores =
     (case history_30d data of
        None \<Rightarrow> scores
      | Some h \<Rightarrow>
          if frame_len h < 20 then scores
          else
            (case Volume h of
               None \<Rightarrow> scores
             | Some vol \<Rightarrow>
                 let close = Close h;
                     avg_vol_20d = mean (iloc_tail vol 20);
                     recent_vol = mean (iloc_tail vol 5)
                 in if avg_vol_20d \<le> 0 then scores
                    else
                      let vol_ratio = recent_vol / avg_vol_20d;
                          ret_5d = np_div (iloc_neg close 1 - iloc_neg close 5) (iloc_neg close 5)
                      in if np_gt ret_5d 0.01 \<and> vol_ratio > 1.3 then scores @ [0.4]
                         else if np_lt ret_5d (-0.01) \<and> vol_ratio > 1.3 then scores @ [-0.4]
                         else if np_gt ret_5d 0.01 \<and> vol_ratio < 0.7 then scores @ [-0.1]
                         else if np_lt ret_5d (-0.01) \<and> vol_ratio < 0.7 then scores @ [0.1]
                         else scores))"

text \<open>\<open>_score_beta_momentum\<close> only records a data point; it appends no score.\<close>

definition score_beta_momentum :: "stock_data \<Rightarrow> real list \<Rightarrow> real list" where
  "score_beta_momentum data scores = scores"

definition momentum_scores :: "stock_data \<Rightarrow> real list" where
  "momentum_scores data =
     score_beta_momentum data (score_volume_confirmation data (score_price_trend data []))"

definition extract_momentum :: "reasoners \<Rightarrow> stock_data \<Rightarrow> signal" where
  "extract_momentum rs data =
     (let conf = assess_confidence_momentum data;
          scores = momentum_scores data
      in if scores = [] then
           \<lparr>name = ''momentum'', direction = Neutral, strength = 0.0, confidence = 0.0,
            reasoning = ''Insufficient momentum data''\<rparr>
         else
           let avg_score = sum_list scores / real (length scores);
               dir = (if avg_score > 0.1 then Bullish
                      else if avg_score < -0.1 then Bearish else Neutral);
               str = min \<bar>avg_score\<bar> 1.0
           in \<lparr>name = ''momentum'', direction = dir, strength = py_round str 2,
               confidence = py_round conf 2, reasoning = momentum_reasoning rs data dir\<rparr>)"

section \<open>signals/macro\_signal.py\<close>

definition assess_confidence_macro :: "macro_data \<Rightarrow> real" where
  "assess_confidence_macro macro =
     (let score = 0.0;
          score = (if vix macro > 0 then score + 0.3 else score);
          score = (if treasury_10y macro > 0 then score + 0.2 else score);
          score = (if sector_returns_1m macro \<noteq> [] then score + 0.3 else score);
          score = (if gold_price macro > 0 then score + 0.1 else score);
          score = (if oil_price macro > 0 then score + 0.1 else score)
      in min score 1.0)"

definition score_vix :: "macro_data \<Rightarrow> real list \<Rightarrow> real list" where
  "score_vix macro scores =
     (if vix macro \<le> 0 then scores
      else
        let scores = (if vix macro > 30 then scores @ [-0.6]
                      else if vix macro > 20 then scores @ [-0.2]
                      else if vix macro < 13 then scores @ [0.3]
                      else scores)
        in if vix_5d_change macro > 20 then scores @ [-0.4]
           else if vix_5d_change macro < -15 then scores @ [0.3]
           else scores)"

definition score_yield_curve :: "macro_data \<Rightarrow> real list \<Rightarrow> real list" where
  "score_yield_curve macro scores =
     (if treasury_10y macro \<le> 0 then scores
      else if treasury_2y macro > 0 then
        let spread = yield_spread_10y2y macro
        in if spread < -0.5 then scores @ [-0.5]
           else if spread < 0 then scores @ [-0.3]
           else if spread > 1.0 then scores @ [0.2]
           else scores
      else scores)"

definition avg_return :: "(string \<times> real) list \<Rightarrow> string list \<Rightarrow> real option" where
  "avg_return returns tickers =
     (let vals = map (\<lambda>t. the (map_of returns t)) (filter (\<lambda>t. map_of returns t \<noteq> None) tickers)
      in if vals \<noteq> [] then Some (sum_list vals / real (length vals)) else None)"

definition score_sector_rotation :: "macro_data \<Rightarrow> real list \<Rightarrow> real list" where
  "score_sector_rotation macro scores =
     (if sector_returns_1m macro = [] then scores
      else
        let scores =
              (if stock_sector macro \<noteq> [] \<and> sector_vs_spy macro \<noteq> 0 then
                 (if sector_vs_spy macro > 3 then scores @ [0.4]
                  else if sector_vs_spy macro > 1 then scores @ [0.2]
                  else if sector_vs_spy macro < -3 then scores @ [-0.4]
                  else if sector_vs_spy macro < -1 then scores @ [-0.2]
                  else scores)
               else scores);
            defensive = [''XLU'', ''XLP'', ''XLV''];
            cyclical = [''XLK'', ''XLY'', ''XLI'', ''XLF''];
            def_avg = avg_return (sector_returns_1m macro) defensive;
            cyc_avg = avg_return (sector_returns_1m macro) cyclical
        in (case (def_avg, cyc_avg) of
              (Some d, Some c) \<Rightarrow>
                let rotation = c - d
                in if rotation > 3 then scores @ [0.3]
                   else if rotation < -3 then scores @ [-0.3]
                   else scores
            | _ \<Rightarrow> scores))"

definition macro_scores :: "macro_data \<Rightarrow> real list" where
  "macro_scores macro = score_sector_rotation macro (score_yield_curve macro (score_vix macro []))"

definition extract_macro :: "reasoners \<Rightarrow> stock_data \<Rightarrow> macro_data \<Rightarrow> signal" where
  "extract_macro rs data macro =
     (let conf = assess_confidence_macro macro;
          scores = macro_scores macro
      in if scores = [] then
           \<lparr>name = ''macro'', direction = Neutral, strength = 0.0, confidence = 0.0,
            reasoning = ''Insufficient macro data''\<rparr>
         else
           let avg_score = sum_list scores / real (length scores);
               dir = (if avg_score > 0.1 then Bullish
                      else if avg_score < -0.1 then Bearish else Neutral);
               str = min \<bar>avg_score\<bar> 1.0
           in \<lparr>name = ''macro'', direction = dir, strength = py_round str 2,
               confidence = py_round conf 2, reasoning = macro_reasoning rs macro dir\<rparr>)"

section \<open>signals/news\_signal.py\<close>

definition assess_confidence_news :: "news_data \<Rightarrow> real" where
  "assess_confidence_news nd =
     (if news_volume nd = 0 then 0.0
      else
        let score = 0.4;
            score = (if news_volume nd \<ge> 10 then score + 0.2 else score);
            score = (if high_importance_count nd > 0 then score + 0.2 else score);
            score = (if ticker_news nd \<noteq> [] \<and> macro_news nd \<noteq> [] then score + 0.2 else score)
        in min score 1.0)"

definition score_ticker_sentiment :: "news_data \<Rightarrow> real list \<Rightarrow> real list" where
  "score_ticker_sentiment nd scores =
     (let ts = ticker_sentiment_score nd
      in if ts > 0.3 then scores @ [0.6]
         else if ts > 0.1 then scores @ [0.3]
         else if ts < -0.3 then scores @ [-0.6]
         else if ts < -0.1 then scores @ [-0.3]
         else scores)"

definition score_macro_sentiment :: "news_data \<Rightarrow> real list \<Rightarrow> real list" where
  "score_macro_sentiment nd scores =
     (let ms = macro_sentiment_score nd;
          weight = (if high_importance_count nd > 0 then 2.0 else 1.0)
      in if ms > 0.3 then scores @ [min (0.5 * weight) 1.0]
         else if ms > 0.1 then scores @ [min (0.25 * weight) 1.0]
         else if ms < -0.3 then scores @ [max (-0.5 * weight) (-1.0)]
         else if ms < -0.1 then scores @ [max (-0.25 * weight) (-1.0)]
         else scores)"

definition score_volume_anomaly :: "news_data \<Rightarrow> real list \<Rightarrow> real list" where
  "score_volume_anomaly nd scores =
     (if news_volume nd \<le> 50 then scores
      else
        let combined = ticker_sentiment_score nd + macro_sentiment_score nd
        in if combined > 0 then scores @ [0.3]
           else if combined < 0 then scores @ [-0.3]
           else scores)"

definition news_scores :: "news_data \<Rightarrow> real list" where
  "news_scores nd = score_volume_anomaly nd (score_macro_sentiment nd (score_ticker_sentiment nd []))"

definition extract_news :: "reasoners \<Rightarrow> news_data \<Rightarrow> signal" where
  "extract_news rs nd =
     (let conf = assess_confidence_news nd;
          scores = news_scores nd
      in if scores = [] then
           \<lparr>name = ''news_sentiment'', direction = Neutral, strength = 0.0, confidence = 0.0,
            reasoning = ''No news data available (daemon may not be running)''\<rparr>
         else
           let avg_score = sum_list scores / real (length scores);
               dir = (if avg_score > 0.1 then Bullish
                      else if avg_score < -0.1 then Bearish else Neutral);
               str = min \<bar>avg_score\<bar> 1.0
           in \<lparr>name = ''news_sentiment'', direction = dir, strength = py_round str 2,
               confidence = py_round conf 2, reasoning = news_reasoning rs nd dir\<rparr>)"

section \<open>runner.py\<close>

text \<open>
  A call of an extractor either returns its signal or raises; \<open>Raised\<close> carries the text
  \<open>str(exc)\<close> of the exception. The extractors above are total, so whether the call of a
  category raises on the given data is an argument of \<open>extract_all_signals\<close>:
  \<open>raises nm = Some msg\<close> when the extractor named \<open>nm\<close> raises an exception with text \<open>msg\<close>.
\<close>

datatype 'a outcome = Returned 'a | Raised string

text \<open>The loop \<open>for name, fn in extractors\<close> with its \<open>try\<close>/\<open>except Exception\<close>.\<close>

fun extract_loop :: "(string \<times> signal outcome) list \<Rightarrow> signal list \<Rightarrow> signal list" where
  "extract_loop [] signals = signals"
| "extract_loop ((nm, fn) # extractors) signals =
     (case fn of
        Returned s \<Rightarrow> extract_loop extractors (signals @ [s])
      | Raised exc \<Rightarrow>
          extract_loop extractors
            (signals @ [\<lparr>name = nm, direction = Neutral, strength = 0.0, confidence = 0.0,
                          reasoning = ''Extraction failed: '' @ exc\<rparr>]))"

definition call :: "(string \<Rightarrow> string option) \<Rightarrow> string \<Rightarrow> signal \<Rightarrow> signal outcome" where
  "call raises nm s = (case raises nm of Some exc \<Rightarrow> Raised exc | None \<Rightarrow> Returned s)"

definition extract_all_signals ::
  "(string \<Rightarrow> string option) \<Rightarrow> reasoners \<Rightarrow> stock_data \<Rightarrow> macro_data \<Rightarrow> news_data \<Rightarrow> signal list" where
  "extract_all_signals raises rs stock macro nd =
     (let extractors =
            [(''technical'', call raises ''technical'' (extract_technical rs stock)),
             (''valuation'', call raises ''valuation'' (extract_valuation rs stock)),
             (''insider_activity'', call raises ''insider_activity'' (extract_insider rs stock)),
             (''earnings'', call raises ''earnings'' (extract_earnings rs stock)),
             (''options'', call raises ''options'' (extract_options rs stock)),
             (''momentum'', call raises ''momentum'' (extract_momentum rs stock)),
             (''macro'', call raises ''macro'' (extract_macro rs stock macro)),
             (''news_sentiment'', call raises ''news_sentiment'' (extract_news rs nd))]
      in extract_loop extractors [])"

section \<open>continuous\_monitor.py\<close>

definition interpret_idea :: "score \<Rightarrow> string" where
  "interpret_idea sc =
     (let dir = consensus_direction sc;
          alpha = alpha_potential sc;
          sev = contradiction_severity sc
      in if alpha = ''high'' \<and> sev = ''high'' then
           ''INTERPRETATION: High-conviction contradictions detected. ''
           @ ''Smart money divergence suggests a potential turning point. ''
           @ ''Monitor closely for resolution signal before taking position.''
         else if alpha = ''medium'' then
           ''INTERPRETATION: Moderate contradictions detected. ''
           @ ''Signals are split '' @ [CHR 0xE2, CHR 0x80, CHR 0x94]
           @ '' wait for a catalyst (earnings, macro event) ''
           @ ''to break the tie before entering.''
         else if (dir = ''bullish'' \<or> dir = ''bearish'') \<and> consensus_strength sc > 0.7 then
           ''INTERPRETATION: Strong '' @ dir @ '' consensus with no major ''
           @ ''contradictions. Trend-following setup '' @ [CHR 0xE2, CHR 0x80, CHR 0x94]
           @ '' consider ''
           @ (if dir = ''bullish'' then ''long'' else ''short'') @ '' exposure.''
         else ''INTERPRETATION: No clear edge. Wait for stronger signal alignment.'')"

section \<open>Notions used to state the properties\<close>

text \<open>What one rule of the table emits for a given signal dictionary.\<close>

definition emit :: "(string \<rightharpoonup> signal) \<Rightarrow> rule \<Rightarrow> contradiction option" where
  "emit m r =
     (case r of (name_a, name_b, min_str, cat, resolution) \<Rightarrow>
        (case m name_a of
           None \<Rightarrow> None
         | Some sig_a \<Rightarrow>
             (case m name_b of
                None \<Rightarrow> None
              | Some sig_b \<Rightarrow> check_pair sig_a sig_b min_str cat resolution)))"


definition high_count :: "contradiction list \<Rightarrow> nat" where
  "high_count cs = length (filter (\<lambda>c. severity c = High) cs)"

definition medium_count :: "contradiction list \<Rightarrow> nat" where
  "medium_count cs = length (filter (\<lambda>c. severity c = Medium) cs)"



text \<open>The eight category names, in the order of the runner.\<close>

definition CATEGORIES :: "string list" where
  "CATEGORIES = [''technical'', ''valuation'', ''insider_activity'', ''earnings'', ''options'',
                 ''momentum'', ''macro'', ''news_sentiment'']"

text \<open>The substitute for a category whose extractor raised with text \<open>exc\<close>.\<close>

definition failed_signal :: "string \<Rightarrow> string \<Rightarrow> signal" where
  "failed_signal nm exc =
     \<lparr>name = nm, direction = Neutral, strength = 0, confidence = 0,
      reasoning = ''Extraction failed: '' @ exc\<rparr>"

text \<open>The four messages of the interpretation helper; the trend-following one names the
  direction and the side to take.\<close>

definition msg_turning_point :: string where
  "msg_turning_point =
     ''INTERPRETATION: High-conviction contradictions detected. Smart money divergence suggests a potential turning point. Monitor closely for resolution signal before taking position.''"

definition msg_wait_for_catalyst :: string where
  "msg_wait_for_catalyst =
     ''INTERPRETATION: Moderate contradictions detected. Signals are split ''
     @ [CHR 0xE2, CHR 0x80, CHR 0x94]
     @ '' wait for a catalyst (earnings, macro event) to break the tie before entering.''"

definition msg_trend_following :: "string \<Rightarrow> string" where
  "msg_trend_following dir =
     ''INTERPRETATION: Strong '' @ dir
     @ '' consensus with no major contradictions. Trend-following setup ''
     @ [CHR 0xE2, CHR 0x80, CHR 0x94] @ '' consider ''
     @ (if dir = ''bullish'' then ''long'' else ''short'') @ '' exposure.''"

definition msg_no_clear_edge :: string where
  "msg_no_clear_edge = ''INTERPRETATION: No clear edge. Wait for stronger signal alignment.''"

section \<open>Concrete inputs\<close>

definition mk_signal :: "string \<Rightarrow> direction \<Rightarrow> real \<Rightarrow> real \<Rightarrow> signal" where
  "mk_signal nm d s c = \<lparr>name = nm, direction = d, strength = s, confidence = c, reasoning = []\<rparr>"

text \<open>Bull weight 0.9 against bear weight 0.2.\<close>

definition bull_09_bear_02 :: "signal list" where
  "bull_09_bear_02 = [mk_signal ''technical'' Bullish 0.9 1.0, mk_signal ''valuation'' Bearish 0.2 1.0]"

text \<open>Insider buying against a bearish valuation, every other category silent.\<close>

definition insider_vs_valuation :: "signal list" where
  "insider_vs_valuation =
     [mk_signal ''technical'' Neutral 0 0,
      mk_signal ''valuation'' Bearish 0.5 0.6,
      mk_signal ''insider_activity'' Bullish 0.6 0.5,
      mk_signal ''earnings'' Neutral 0 0,
      mk_signal ''options'' Neutral 0 0,
      mk_signal ''momentum'' Neutral 0 0,
      mk_signal ''macro'' Neutral 0 0,
      mk_signal ''news_sentiment'' Neutral 0 0]"


text \<open>The \<open>StockData()\<close> of the dataclass defaults, with no history.\<close>

definition empty_stock :: stock_data where
  "empty_stock =
     \<lparr>current_price = 0, history_30d = None, ma_50 = 0, ma_200 = 0, rsi_14 = 0,
      analyst_target_mean = 0, analyst_count = 0, insider_transactions = [],
      insider_net_shares = 0, insiders_pct_held = 0, institutions_pct_held = 0,
      put_call_ratio_oi = 0, atm_call_iv = 0, atm_put_iv = 0, iv_skew = 0,
      next_earnings_date = None, days_to_earnings = None, last_4_surprises = [],
      pe_trailing = 0, pe_forward = 0, pb = 0, ev_ebitda = 0, beta = 0,
      week52_high = 0, week52_low = 0\<rparr>"

definition empty_macro :: macro_data where
  "empty_macro =
     \<lparr>vix = 0, vix_5d_change = 0, treasury_10y = 0, treasury_2y = 0, yield_spread_10y2y = 0,
      gold_price = 0, oil_price = 0, sector_returns_1m = [], stock_sector = [],
      sector_vs_spy = 0\<rparr>"

definition empty_news :: news_data where
  "empty_news =
     \<lparr>ticker_news = [], macro_news = [], ticker_sentiment_score = 0, macro_sentiment_score = 0,
      news_volume = 0, high_importance_count = 0\<rparr>"

definition no_reasoning :: reasoners where
  "no_reasoning =
     \<lparr>technical_reasoning = (\<lambda>_ _. []), valuation_reasoning = (\<lambda>_ _. []),
      insider_reasoning = (\<lambda>_ _. []), earnings_reasoning = (\<lambda>_ _. []),
      options_reasoning = (\<lambda>_ _. []), momentum_reasoning = (\<lambda>_ _. []),
      macro_reasoning = (\<lambda>_ _. []), news_reasoning = (\<lambda>_ _. [])\<rparr>"

text \<open>A price at 99 in a 52-week range of 50 to 100, and nothing else known.\<close>

definition only_52w_range :: stock_data where
  "only_52w_range = empty_stock\<lparr>current_price := 99, week52_high := 100, week52_low := 50\<rparr>"

text \<open>A history of five rows that gained ten percent.\<close>

definition five_rows_up :: stock_data where
  "five_rows_up =
     empty_stock\<lparr>current_price := 110,
                 history_30d := Some \<lparr>Close = [100, 102, 104, 107, 110], Volume = None\<rparr>\<rparr>"


text \<open>A valuation contradicted strongly by both the insiders and the chart.\<close>

definition two_high_conflicts :: "signal list" where
  "two_high_conflicts =
     [mk_signal ''insider_activity'' Bullish 0.9 0.9,
      mk_signal ''valuation'' Bearish 0.9 0.9,
      mk_signal ''technical'' Bullish 0.9 0.9]"

section \<open>Properties\<close>

subsection \<open>Rounding and weights\<close>

lemma round_half_even_lower: "\<lfloor>y\<rfloor> \<le> round_half_even y"
  by (simp add: round_half_even_def Let_def)






subsection \<open>The consensus scorer\<close>



lemma alpha_potential_eq:
  "alpha_potential (score_overall sigs cs) =
     alpha_potential_fn (int (length cs)) (int (high_count cs)) (int (medium_count cs))"
  by (simp add: score_overall_def Let_def high_count_def medium_count_def)






text \<open>
  C4. For every contradiction list, the alpha potential of \<open>score_overall\<close> is high exactly
  when there are at least two high-severity contradictions, or at least one high and at least
  two medium; medium exactly when it is not high and there is at least one high, or at least
  two medium, or at least three contradictions; low exactly when neither and there is at least
  one contradiction; none exactly when there is no contradiction. Two high-severity
  contradictions give high whatever the other counts are.
\<close>
theorem alpha_potential_rule:
  "(alpha_potential (score_overall sigs cs) = ''high''
      \<longleftrightarrow> high_count cs \<ge> 2 \<or> (high_count cs \<ge> 1 \<and> medium_count cs \<ge> 2))
   \<and> (alpha_potential (score_overall sigs cs) = ''medium''
      \<longleftrightarrow> \<not> (high_count cs \<ge> 2 \<or> (high_count cs \<ge> 1 \<and> medium_count cs \<ge> 2))
          \<and> (high_count cs \<ge> 1 \<or> medium_count cs \<ge> 2 \<or> length cs \<ge> 3))
   \<and> (alpha_potential (score_overall sigs cs) = ''low''
      \<longleftrightarrow> \<not> (high_count cs \<ge> 2 \<or> (high_count cs \<ge> 1 \<and> medium_count cs \<ge> 2))
          \<and> \<not> (high_count cs \<ge> 1 \<or> medium_count cs \<ge> 2 \<or> length cs \<ge> 3)
          \<and> length cs \<ge> 1)
   \<and> (alpha_potential (score_overall sigs cs) = ''none'' \<longleftrightarrow> cs = [])
   \<and> (high_count cs \<ge> 2 \<longrightarrow> alpha_potential (score_overall sigs cs) = ''high'')"
proof -
  have hl: "high_count cs \<le> length cs" by (simp add: high_count_def)
  have ml: "medium_count cs \<le> length cs" by (simp add: medium_count_def)
  have e: "cs \<noteq> [] \<longrightarrow> 1 \<le> length cs" by (cases cs) simp_all
  show ?thesis
    unfolding alpha_potential_eq alpha_potential_fn_def
    using hl ml e by auto
qed

text \<open>
  C4 at three signals that give two high-severity contradictions.
\<close>
theorem alpha_potential_rule_witness:
  "high_count (detect two_high_conflicts) \<ge> 2
   \<and> alpha_potential (score_overall two_high_conflicts (detect two_high_conflicts)) = ''high''"
proof -
  have h: "high_count (detect two_high_conflicts) \<ge> 2"
    by (simp add: high_count_def detect_def two_high_conflicts_def mk_signal_def signal_map_def
        CONTRADICTION_RULES_def check_pair_def classify_severity_def Let_def)
  from alpha_potential_rule[of two_high_conflicts "detect two_high_conflicts"] h
  show ?thesis by blast
qed

subsection \<open>The contradiction detector\<close>

text \<open>
  The loop of \<open>detect\<close> collects what each rule emits, in table order.
\<close>
lemma detect_loop_emit: "detect_loop m rules acc = acc @ List.map_filter (emit m) rules"
  by (induction rules arbitrary: acc)
     (auto simp: emit_def List.map_filter_simps split: option.splits)

lemma detect_emit:
  "detect sigs = sort_key (\<lambda>c. severity_key (severity c))
                   (List.map_filter (emit (signal_map sigs)) CONTRADICTION_RULES)"
  by (simp add: detect_def detect_loop_emit)

lemma set_map_filter_eq: "set (List.map_filter g xs) = {y. \<exists>x \<in> set xs. g x = Some y}"
  by (induction xs) (auto simp: List.map_filter_simps split: option.splits)

lemma set_detect:
  "set (detect sigs) = {c. \<exists>r \<in> set CONTRADICTION_RULES. emit (signal_map sigs) r = Some c}"
  by (simp add: detect_emit set_map_filter_eq)

lemma check_pair_None_iff:
  "check_pair a b m cat res = None \<longleftrightarrow>
     direction a = Neutral \<or> direction b = Neutral \<or> direction a = direction b
     \<or> strength a < m \<or> strength b < m \<or> (confidence a < 0.2 \<and> confidence b < 0.2)"
  by (simp add: check_pair_def Let_def)

lemma check_pair_Some:
  assumes "check_pair a b m cat res = Some c"
  shows "signal_a c = a" "signal_b c = b" "category c = cat" "historical_resolution c = res"
    "severity c = classify_severity ((strength a + strength b) / 2) (confidence a) (confidence b)"
  using assms by (auto simp: check_pair_def Let_def split: if_splits)

lemma emit_Some:
  assumes "emit m (na, nb, ms, cat, res) = Some c"
  shows "m na = Some (signal_a c) \<and> m nb = Some (signal_b c) \<and> category c = cat
         \<and> check_pair (signal_a c) (signal_b c) ms cat res = Some c"
  using assms check_pair_Some
  by (auto simp: emit_def split: option.splits)

lemma rules_distinct: "distinct (map (\<lambda>(na, nb, ms, cat, res). cat) CONTRADICTION_RULES)"
  by (simp add: CONTRADICTION_RULES_def)

text \<open>
  The scenario of the specification, evaluated: one contradiction.
\<close>
lemma detect_insider_vs_valuation:
  "detect insider_vs_valuation =
     [\<lparr>signal_a = mk_signal ''insider_activity'' Bullish 0.6 0.5,
       signal_b = mk_signal ''valuation'' Bearish 0.5 0.6,
       severity = Medium,
       category = ''smart_money_divergence'',
       description = ''INSIDER_ACTIVITY says bullish () but VALUATION says bearish ()'',
       historical_resolution = ''Insider activity is more predictive than analyst ratings''\<rparr>]"
  by (simp add: detect_def insider_vs_valuation_def mk_signal_def signal_map_def
      CONTRADICTION_RULES_def check_pair_def classify_severity_def Let_def
      upper_def upper_char_def)

lemma detected_pair_opposed:
  assumes "c \<in> set (detect sigs)"
  shows "\<exists>(na, nb, ms, ct, rs) \<in> set CONTRADICTION_RULES.
        signal_map sigs na = Some (signal_a c) \<and> signal_map sigs nb = Some (signal_b c)
        \<and> category c = ct
        \<and> direction (signal_a c) \<noteq> Neutral \<and> direction (signal_b c) \<noteq> Neutral
        \<and> direction (signal_a c) \<noteq> direction (signal_b c)
        \<and> ms \<le> strength (signal_a c) \<and> ms \<le> strength (signal_b c)
        \<and> \<not> (confidence (signal_a c) < 0.2 \<and> confidence (signal_b c) < 0.2)"
proof -
  from assms obtain r where r: "r \<in> set CONTRADICTION_RULES"
    and e: "emit (signal_map sigs) r = Some c"
    by (auto simp: set_detect)
  obtain na nb ms ct rs where req: "r = (na, nb, ms, ct, rs)" by (cases r) auto
  from emit_Some[OF e[unfolded req]]
  have m: "signal_map sigs na = Some (signal_a c)" "signal_map sigs nb = Some (signal_b c)"
    "category c = ct" and cp: "check_pair (signal_a c) (signal_b c) ms ct rs = Some c"
    by auto
  from cp have "check_pair (signal_a c) (signal_b c) ms ct rs \<noteq> None" by simp
  then have "direction (signal_a c) \<noteq> Neutral \<and> direction (signal_b c) \<noteq> Neutral
      \<and> direction (signal_a c) \<noteq> direction (signal_b c)
      \<and> ms \<le> strength (signal_a c) \<and> ms \<le> strength (signal_b c)
      \<and> \<not> (confidence (signal_a c) < 0.2 \<and> confidence (signal_b c) < 0.2)"
    unfolding check_pair_None_iff by auto
  with m r req show ?thesis by blast
qed

lemma failing_rule_emits_nothing:
  assumes r: "(na, nb, ms, ct, rs) \<in> set CONTRADICTION_RULES"
    and ma: "signal_map sigs na = Some sa" and mb: "signal_map sigs nb = Some sb"
    and fails: "direction sa = Neutral \<or> direction sb = Neutral \<or> direction sa = direction sb
         \<or> strength sa < ms \<or> strength sb < ms \<or> (confidence sa < 0.2 \<and> confidence sb < 0.2)"
    and c: "c \<in> set (detect sigs)"
  shows "category c \<noteq> ct"
proof
  assume same: "category c = ct"
  from fails have none: "check_pair sa sb ms ct rs = None"
    unfolding check_pair_None_iff .
  from c obtain r' where r': "r' \<in> set CONTRADICTION_RULES"
    and e: "emit (signal_map sigs) r' = Some c"
    by (auto simp: set_detect)
  obtain na' nb' ms' ct' rs' where req: "r' = (na', nb', ms', ct', rs')" by (cases r') auto
  from emit_Some[OF e[unfolded req]] have ct': "category c = ct'" by simp
  have "inj_on (\<lambda>(na, nb, ms, cat, res). cat) (set CONTRADICTION_RULES)"
    using rules_distinct by (simp add: distinct_map)
  with r r' req ct' same have "r' = (na, nb, ms, ct, rs)"
    by (auto simp: inj_on_def)
  with e have "emit (signal_map sigs) (na, nb, ms, ct, rs) = Some c" by simp
  with ma mb none show False by (simp add: emit_def)
qed

text \<open>
  C2. \<open>_check_pair\<close> returns no contradiction exactly when a direction is neutral, the
  directions are equal, a strength is below the floor, or both confidences are below 0.2.
  For every signal list, every contradiction that \<open>detect\<close> returns comes from a rule of
  the table applied to the two signals of its categories: their directions are both
  non-neutral and differ, their strengths are both at least the rule's floor, and their
  confidences are not both below 0.2. Conversely a rule whose pair fails one of these
  conditions contributes no contradiction of its category.
\<close>
theorem contradictions_only_between_opposed_signals:
  "(check_pair a b m cat res = None \<longleftrightarrow>
      direction a = Neutral \<or> direction b = Neutral \<or> direction a = direction b
      \<or> strength a < m \<or> strength b < m \<or> (confidence a < 0.2 \<and> confidence b < 0.2))
   \<and> (\<forall>c \<in> set (detect sigs). \<exists>(na, nb, ms, ct, rs) \<in> set CONTRADICTION_RULES.
        signal_map sigs na = Some (signal_a c) \<and> signal_map sigs nb = Some (signal_b c)
        \<and> category c = ct
        \<and> direction (signal_a c) \<noteq> Neutral \<and> direction (signal_b c) \<noteq> Neutral
        \<and> direction (signal_a c) \<noteq> direction (signal_b c)
        \<and> ms \<le> strength (signal_a c) \<and> ms \<le> strength (signal_b c)
        \<and> \<not> (confidence (signal_a c) < 0.2 \<and> confidence (signal_b c) < 0.2))
   \<and> (\<forall>(na, nb, ms, ct, rs) \<in> set CONTRADICTION_RULES. \<forall>sa sb.
        signal_map sigs na = Some sa \<longrightarrow> signal_map sigs nb = Some sb \<longrightarrow>
        (direction sa = Neutral \<or> direction sb = Neutral \<or> direction sa = direction sb
         \<or> strength sa < ms \<or> strength sb < ms \<or> (confidence sa < 0.2 \<and> confidence sb < 0.2)) \<longrightarrow>
        (\<forall>c \<in> set (detect sigs). category c \<noteq> ct))"
proof (intro conjI)
  show "check_pair a b m cat res = None \<longleftrightarrow>
      direction a = Neutral \<or> direction b = Neutral \<or> direction a = direction b
      \<or> strength a < m \<or> strength b < m \<or> (confidence a < 0.2 \<and> confidence b < 0.2)"
    by (rule check_pair_None_iff)
next
  show "\<forall>c \<in> set (detect sigs). \<exists>(na, nb, ms, ct, rs) \<in> set CONTRADICTION_RULES.
        signal_map sigs na = Some (signal_a c) \<and> signal_map sigs nb = Some (signal_b c)
        \<and> category c = ct
        \<and> direction (signal_a c) \<noteq> Neutral \<and> direction (signal_b c) \<noteq> Neutral
        \<and> direction (signal_a c) \<noteq> direction (signal_b c)
        \<and> ms \<le> strength (signal_a c) \<and> ms \<le> strength (signal_b c)
        \<and> \<not> (confidence (signal_a c) < 0.2 \<and> confidence (signal_b c) < 0.2)"
    using detected_pair_opposed by blast
next
  show "\<forall>(na, nb, ms, ct, rs) \<in> set CONTRADICTION_RULES. \<forall>sa sb.
        signal_map sigs na = Some sa \<longrightarrow> signal_map sigs nb = Some sb \<longrightarrow>
        (direction sa = Neutral \<or> direction sb = Neutral \<or> direction sa = direction sb
         \<or> strength sa < ms \<or> strength sb < ms \<or> (confidence sa < 0.2 \<and> confidence sb < 0.2)) \<longrightarrow>
        (\<forall>c \<in> set (detect sigs). category c \<noteq> ct)"
    using failing_rule_emits_nothing by blast
qed

text \<open>
  C2 at the scenario: the one contradiction it emits, and the rule technical against
  valuation, whose pair has a neutral side and emits nothing.
\<close>
theorem contradictions_only_between_opposed_signals_witness:
  "hd (detect insider_vs_valuation) \<in> set (detect insider_vs_valuation)
   \<and> direction (signal_a (hd (detect insider_vs_valuation))) \<noteq> Neutral
   \<and> direction (signal_b (hd (detect insider_vs_valuation))) \<noteq> Neutral
   \<and> direction (signal_a (hd (detect insider_vs_valuation)))
       \<noteq> direction (signal_b (hd (detect insider_vs_valuation)))
   \<and> signal_map insider_vs_valuation ''technical'' = Some (mk_signal ''technical'' Neutral 0 0)
   \<and> signal_map insider_vs_valuation ''valuation'' = Some (mk_signal ''valuation'' Bearish 0.5 0.6)
   \<and> category (hd (detect insider_vs_valuation)) \<noteq> ''technical_fundamental_divergence''"
proof -
  let ?X = insider_vs_valuation
  let ?r = "(''technical'', ''valuation'', 0.4 :: real, ''technical_fundamental_divergence'',
             ''Fundamentals tend to dominate over 3-6 months; technicals over 1-4 weeks'')"
  note th = contradictions_only_between_opposed_signals
               [of "mk_signal ''technical'' Neutral 0 0" "mk_signal ''valuation'' Bearish 0.5 0.6"
                   "0.4" "''technical_fundamental_divergence''" "[]" ?X]
  have m: "hd (detect ?X) \<in> set (detect ?X)"
    by (simp add: detect_insider_vs_valuation)
  have r: "?r \<in> set CONTRADICTION_RULES"
    by (simp add: CONTRADICTION_RULES_def)
  have ta: "signal_map ?X ''technical'' = Some (mk_signal ''technical'' Neutral 0 0)"
    by (simp add: signal_map_def insider_vs_valuation_def mk_signal_def)
  have tb: "signal_map ?X ''valuation'' = Some (mk_signal ''valuation'' Bearish 0.5 0.6)"
    by (simp add: signal_map_def insider_vs_valuation_def mk_signal_def)
  have n: "direction (mk_signal ''technical'' Neutral 0 0) = Neutral"
    by (simp add: mk_signal_def)
  from bspec[OF th[THEN conjunct2, THEN conjunct1] m]
  have opposed: "direction (signal_a (hd (detect ?X))) \<noteq> Neutral
        \<and> direction (signal_b (hd (detect ?X))) \<noteq> Neutral
        \<and> direction (signal_a (hd (detect ?X))) \<noteq> direction (signal_b (hd (detect ?X)))"
    by auto
  from bspec[OF th[THEN conjunct2, THEN conjunct2] r]
  have "\<forall>c \<in> set (detect ?X). category c \<noteq> ''technical_fundamental_divergence''"
    using ta tb n by simp
  then have "category (hd (detect ?X)) \<noteq> ''technical_fundamental_divergence''"
    using m by (rule bspec)
  with opposed m ta tb show ?thesis by simp
qed












subsection \<open>The runner\<close>

lemma extractor_names:
  "name (extract_technical rs stock) = ''technical''"
  "name (extract_valuation rs stock) = ''valuation''"
  "name (extract_insider rs stock) = ''insider_activity''"
  "name (extract_earnings rs stock) = ''earnings''"
  "name (extract_options rs stock) = ''options''"
  "name (extract_momentum rs stock) = ''momentum''"
  "name (extract_macro rs stock macro) = ''macro''"
  "name (extract_news rs nd) = ''news_sentiment''"
  by (simp_all add: extract_technical_def extract_valuation_def extract_insider_def
      extract_earnings_def extract_options_def extract_momentum_def extract_macro_def
      extract_news_def Let_def)

lemma extract_loop_eq:
  "extract_loop extractors signals =
     signals @ map (\<lambda>(nm, fn). case fn of Returned s \<Rightarrow> s | Raised exc \<Rightarrow> failed_signal nm exc)
                 extractors"
  by (induction extractors arbitrary: signals)
     (auto simp: failed_signal_def split: outcome.splits)

lemma call_result:
  "(case call raises nm s of Returned s' \<Rightarrow> s' | Raised exc \<Rightarrow> failed_signal nm exc)
     = (case raises nm of Some exc \<Rightarrow> failed_signal nm exc | None \<Rightarrow> s)"
  by (simp add: call_def split: option.splits)

text \<open>
  C8. Whichever extractors raise, \<open>_extract_all_signals\<close> returns a list of eight signals
  named by the eight categories in the runner's order: for a category whose extractor
  returned, its signal; for one whose extractor raised, a signal of that name with direction
  neutral, strength 0, confidence 0 and the reasoning "Extraction failed: " followed by the
  exception's text. The function has no error result: nothing propagates to the caller.
\<close>
theorem extract_all_signals_one_per_category:
  "extract_all_signals raises rs stock macro nd =
     map2 (\<lambda>nm s. case raises nm of Some exc \<Rightarrow> failed_signal nm exc | None \<Rightarrow> s)
       CATEGORIES
       [extract_technical rs stock, extract_valuation rs stock, extract_insider rs stock,
        extract_earnings rs stock, extract_options rs stock, extract_momentum rs stock,
        extract_macro rs stock macro, extract_news rs nd]
   \<and> map name (extract_all_signals raises rs stock macro nd) = CATEGORIES
   \<and> length (extract_all_signals raises rs stock macro nd) = 8
   \<and> failed_signal nm exc =
        \<lparr>name = nm, direction = Neutral, strength = 0, confidence = 0,
         reasoning = ''Extraction failed: '' @ exc\<rparr>"
proof (intro conjI)
  show eq: "extract_all_signals raises rs stock macro nd =
     map2 (\<lambda>nm s. case raises nm of Some exc \<Rightarrow> failed_signal nm exc | None \<Rightarrow> s)
       CATEGORIES
       [extract_technical rs stock, extract_valuation rs stock, extract_insider rs stock,
        extract_earnings rs stock, extract_options rs stock, extract_momentum rs stock,
        extract_macro rs stock macro, extract_news rs nd]"
    by (simp add: extract_all_signals_def Let_def extract_loop_eq call_result CATEGORIES_def)
  show "map name (extract_all_signals raises rs stock macro nd) = CATEGORIES"
    unfolding eq
    by (simp add: CATEGORIES_def extractor_names failed_signal_def split: option.splits)
  show "length (extract_all_signals raises rs stock macro nd) = 8"
    unfolding eq by (simp add: CATEGORIES_def)
  show "failed_signal nm exc =
        \<lparr>name = nm, direction = Neutral, strength = 0, confidence = 0,
         reasoning = ''Extraction failed: '' @ exc\<rparr>"
    by (simp add: failed_signal_def)
qed

text \<open>
  C8 when the valuation extractor raises with the text "boom".
\<close>
theorem extract_all_signals_one_per_category_witness:
  "extract_all_signals (\<lambda>nm. if nm = ''valuation'' then Some ''boom'' else None)
      no_reasoning only_52w_range empty_macro empty_news ! 1
     = \<lparr>name = ''valuation'', direction = Neutral, strength = 0, confidence = 0,
        reasoning = ''Extraction failed: boom''\<rparr>
   \<and> map name (extract_all_signals (\<lambda>nm. if nm = ''valuation'' then Some ''boom'' else None)
        no_reasoning only_52w_range empty_macro empty_news) = CATEGORIES"
proof -
  let ?raises = "\<lambda>nm. if nm = ''valuation'' then Some ''boom'' else None"
  note th = extract_all_signals_one_per_category
    [of ?raises no_reasoning only_52w_range empty_macro empty_news "''valuation''" "''boom''"]
  have "extract_all_signals ?raises no_reasoning only_52w_range empty_macro empty_news ! 1
          = failed_signal ''valuation'' ''boom''"
    unfolding th[THEN conjunct1] by (simp add: CATEGORIES_def)
  with th[THEN conjunct2, THEN conjunct2, THEN conjunct2] th[THEN conjunct2, THEN conjunct1]
  show ?thesis by simp
qed

subsection \<open>The interpretation helper\<close>

lemma messages_distinct:
  "msg_turning_point \<noteq> msg_wait_for_catalyst"
  "msg_turning_point \<noteq> msg_no_clear_edge"
  "msg_wait_for_catalyst \<noteq> msg_no_clear_edge"
  by (simp_all add: msg_turning_point_def msg_wait_for_catalyst_def msg_no_clear_edge_def)

lemma trend_message_distinct:
  "msg_trend_following d \<noteq> msg_turning_point"
  "msg_trend_following d \<noteq> msg_wait_for_catalyst"
  "msg_trend_following d \<noteq> msg_no_clear_edge"
  by (simp_all add: msg_turning_point_def msg_wait_for_catalyst_def msg_trend_following_def
      msg_no_clear_edge_def)

lemma interpret_idea_eq:
  "interpret_idea sc =
     (if alpha_potential sc = ''high'' \<and> contradiction_severity sc = ''high''
        then msg_turning_point
      else if alpha_potential sc = ''medium'' then msg_wait_for_catalyst
      else if (consensus_direction sc = ''bullish'' \<or> consensus_direction sc = ''bearish'')
              \<and> consensus_strength sc > 0.7
        then msg_trend_following (consensus_direction sc)
      else msg_no_clear_edge)"
  by (simp add: interpret_idea_def Let_def msg_turning_point_def msg_wait_for_catalyst_def
      msg_trend_following_def msg_no_clear_edge_def)

lemma alpha_high_severity_high:
  assumes "alpha_potential (score_overall sigs cs) = ''high''"
  shows "contradiction_severity (score_overall sigs cs) = ''high''"
proof -
  from assms have "length (filter (\<lambda>c. severity c = High) cs) \<ge> 1"
    by (auto simp: score_overall_def Let_def alpha_potential_fn_def split: if_splits)
  then have "filter (\<lambda>c. severity c = High) cs \<noteq> []" by auto
  then obtain c where "c \<in> set cs" "severity c = High"
    by (auto simp: filter_empty_conv)
  then have "cs \<noteq> [] \<and> High \<in> severity ` set cs" by force
  then show ?thesis by (simp add: score_overall_def Let_def overall_severity_def)
qed

lemma alpha_values:
  "alpha_potential_fn a b c = ''high'' \<or> alpha_potential_fn a b c = ''medium''
   \<or> alpha_potential_fn a b c = ''low'' \<or> alpha_potential_fn a b c = ''none''"
  by (simp add: alpha_potential_fn_def)

text \<open>
  C9. \<open>_interpret_idea\<close> depends only on the consensus direction, the alpha potential, the
  contradiction severity and the consensus strength of the score. It returns the
  turning-point message exactly when alpha potential and severity are both high; otherwise
  the wait-for-catalyst message exactly when alpha potential is medium; otherwise the
  trend-following message (for the direction) exactly when the direction is bullish or
  bearish and the strength is strictly greater than 0.7; otherwise the no-clear-edge message.
  On a score of \<open>score_overall\<close> the trend-following message comes only with alpha
  potential low or none, that is with no major contradiction.
\<close>
theorem interpret_idea_four_messages:
  "(interpret_idea sc = msg_turning_point
      \<longleftrightarrow> alpha_potential sc = ''high'' \<and> contradiction_severity sc = ''high'')
   \<and> (interpret_idea sc = msg_wait_for_catalyst
      \<longleftrightarrow> \<not> (alpha_potential sc = ''high'' \<and> contradiction_severity sc = ''high'')
          \<and> alpha_potential sc = ''medium'')
   \<and> (interpret_idea sc = msg_trend_following (consensus_direction sc)
      \<longleftrightarrow> \<not> (alpha_potential sc = ''high'' \<and> contradiction_severity sc = ''high'')
          \<and> alpha_potential sc \<noteq> ''medium''
          \<and> (consensus_direction sc = ''bullish'' \<or> consensus_direction sc = ''bearish'')
          \<and> consensus_strength sc > 0.7)
   \<and> (interpret_idea sc = msg_no_clear_edge
      \<longleftrightarrow> \<not> (alpha_potential sc = ''high'' \<and> contradiction_severity sc = ''high'')
          \<and> alpha_potential sc \<noteq> ''medium''
          \<and> \<not> ((consensus_direction sc = ''bullish'' \<or> consensus_direction sc = ''bearish'')
                \<and> consensus_strength sc > 0.7))
   \<and> interpret_idea sc
        = interpret_idea \<lparr>consensus_direction = consensus_direction sc,
            consensus_strength = consensus_strength sc,
            bullish_count = n1, bearish_count = n2, neutral_count = n3,
            contradiction_count = n4,
            contradiction_severity = contradiction_severity sc,
            alpha_potential = alpha_potential sc,
            key_contradictions = ks, signal_summary = sm\<rparr>
   \<and> (interpret_idea (score_overall sigs cs)
          = msg_trend_following (consensus_direction (score_overall sigs cs)) \<longrightarrow>
        alpha_potential (score_overall sigs cs) = ''low''
        \<or> alpha_potential (score_overall sigs cs) = ''none'')"
proof -
  have four:
   "(interpret_idea sc = msg_turning_point
      \<longleftrightarrow> alpha_potential sc = ''high'' \<and> contradiction_severity sc = ''high'')
   \<and> (interpret_idea sc = msg_wait_for_catalyst
      \<longleftrightarrow> \<not> (alpha_potential sc = ''high'' \<and> contradiction_severity sc = ''high'')
          \<and> alpha_potential sc = ''medium'')
   \<and> (interpret_idea sc = msg_trend_following (consensus_direction sc)
      \<longleftrightarrow> \<not> (alpha_potential sc = ''high'' \<and> contradiction_severity sc = ''high'')
          \<and> alpha_potential sc \<noteq> ''medium''
          \<and> (consensus_direction sc = ''bullish'' \<or> consensus_direction sc = ''bearish'')
          \<and> consensus_strength sc > 0.7)
   \<and> (interpret_idea sc = msg_no_clear_edge
      \<longleftrightarrow> \<not> (alpha_potential sc = ''high'' \<and> contradiction_severity sc = ''high'')
          \<and> alpha_potential sc \<noteq> ''medium''
          \<and> \<not> ((consensus_direction sc = ''bullish'' \<or> consensus_direction sc = ''bearish'')
                \<and> consensus_strength sc > 0.7))"
    unfolding interpret_idea_eq
    using messages_distinct messages_distinct[symmetric]
      trend_message_distinct[of "consensus_direction sc"]
      trend_message_distinct[of "consensus_direction sc", symmetric]
    by auto
  have pure: "interpret_idea sc
        = interpret_idea \<lparr>consensus_direction = consensus_direction sc,
            consensus_strength = consensus_strength sc,
            bullish_count = n1, bearish_count = n2, neutral_count = n3,
            contradiction_count = n4,
            contradiction_severity = contradiction_severity sc,
            alpha_potential = alpha_potential sc,
            key_contradictions = ks, signal_summary = sm\<rparr>"
    by (simp add: interpret_idea_eq)
  have trend: "interpret_idea (score_overall sigs cs)
          = msg_trend_following (consensus_direction (score_overall sigs cs)) \<longrightarrow>
        alpha_potential (score_overall sigs cs) = ''low''
        \<or> alpha_potential (score_overall sigs cs) = ''none''"
  proof
    let ?sc = "score_overall sigs cs"
    assume t: "interpret_idea ?sc = msg_trend_following (consensus_direction ?sc)"
    have v: "alpha_potential ?sc = ''high'' \<or> alpha_potential ?sc = ''medium''
             \<or> alpha_potential ?sc = ''low'' \<or> alpha_potential ?sc = ''none''"
      using alpha_values by (simp add: score_overall_def Let_def)
    from t have "\<not> (alpha_potential ?sc = ''high'' \<and> contradiction_severity ?sc = ''high'')"
      and "alpha_potential ?sc \<noteq> ''medium''"
      unfolding interpret_idea_eq
      using trend_message_distinct[of "consensus_direction ?sc", symmetric]
      by (auto split: if_splits)
    with v alpha_high_severity_high[of sigs cs]
    show "alpha_potential ?sc = ''low'' \<or> alpha_potential ?sc = ''none''" by blast
  qed
  from four pure trend show ?thesis by blast
qed

text \<open>
  C9 at a score with two high contradictions and at a strong bullish score without any.
\<close>
theorem interpret_idea_four_messages_witness:
  "interpret_idea (score_overall two_high_conflicts (detect two_high_conflicts)) = msg_turning_point
   \<and> interpret_idea (score_overall bull_09_bear_02 []) = msg_trend_following ''bullish''"
proof -
  let ?s1 = "score_overall two_high_conflicts (detect two_high_conflicts)"
  let ?s2 = "score_overall bull_09_bear_02 []"
  have d: "detect two_high_conflicts \<noteq> [] \<and> High \<in> severity ` set (detect two_high_conflicts)
           \<and> length (filter (\<lambda>c. severity c = High) (detect two_high_conflicts)) = 2"
    by (simp add: detect_def two_high_conflicts_def mk_signal_def signal_map_def
        CONTRADICTION_RULES_def check_pair_def classify_severity_def Let_def)
  have a1: "alpha_potential ?s1 = ''high'' \<and> contradiction_severity ?s1 = ''high''"
    using d by (simp add: score_overall_def Let_def alpha_potential_fn_def overall_severity_def)
  have a2: "alpha_potential ?s2 = ''none'' \<and> consensus_direction ?s2 = ''bullish''
            \<and> consensus_strength ?s2 = 0.82"
    by (simp add: score_overall_def consensus_def total_weight_def bull_09_bear_02_def mk_signal_def
      bull_weight_def bear_weight_def bullish_of_def bearish_of_def alpha_potential_fn_def
      py_round_def round_half_even_def Let_def)
  from interpret_idea_four_messages[of ?s1, THEN conjunct1] a1
  have m1: "interpret_idea ?s1 = msg_turning_point" by simp
  from interpret_idea_four_messages[of ?s2, THEN conjunct2, THEN conjunct2, THEN conjunct1] a2
  have "interpret_idea ?s2 = msg_trend_following ''bullish''" by simp
  with m1 show ?thesis by simp
qed

subsection \<open>The extractors\<close>

lemma py_round_pos:
  assumes "0.1 \<le> x"
  shows "0 < py_round x 2"
proof -
  have "10 \<le> x * 10 ^ 2" using assms by simp
  then have "10 \<le> \<lfloor>x * 10 ^ 2\<rfloor>" by (simp add: le_floor_iff)
  with round_half_even_lower[of "x * 10 ^ 2"] have "10 \<le> round_half_even (x * 10 ^ 2)" by linarith
  then have "(0::real) < of_int (round_half_even (x * 10 ^ 2))" by simp
  then show ?thesis by (simp add: py_round_def)
qed

lemma valuation_confident:
  assumes "valuation_scores data \<noteq> []"
  shows "0.1 \<le> assess_confidence_valuation data"
proof (rule ccontr)
  assume "\<not> 0.1 \<le> assess_confidence_valuation data"
  then have "pe_trailing data \<le> 0 \<and> pe_forward data \<le> 0 \<and> analyst_target_mean data \<le> 0
             \<and> pb data \<le> 0 \<and> ev_ebitda data \<le> 0"
    by (auto simp: assess_confidence_valuation_def Let_def split: if_splits)
  then have "valuation_scores data = []"
    by (simp add: valuation_scores_def score_pe_def score_analyst_target_def score_pb_def
        score_ev_ebitda_def Let_def)
  with assms show False by simp
qed

lemma macro_confident:
  assumes "macro_scores macro \<noteq> []"
  shows "0.1 \<le> assess_confidence_macro macro"
proof (rule ccontr)
  assume "\<not> 0.1 \<le> assess_confidence_macro macro"
  then have "vix macro \<le> 0 \<and> treasury_10y macro \<le> 0 \<and> sector_returns_1m macro = []"
    by (auto simp: assess_confidence_macro_def Let_def split: if_splits)
  then have "macro_scores macro = []"
    by (simp add: macro_scores_def score_vix_def score_yield_curve_def
        score_sector_rotation_def Let_def)
  with assms show False by simp
qed

text \<open>
  The valuation and macro extractors score only what their confidence counts, so their
  signals of confidence 0 are neutral with strength 0.
\<close>
lemma valuation_and_macro_keep_invariant:
  "(confidence (extract_valuation rs data) = 0 \<longrightarrow>
      direction (extract_valuation rs data) = Neutral \<and> strength (extract_valuation rs data) = 0)
   \<and> (confidence (extract_macro rs data macro) = 0 \<longrightarrow>
      direction (extract_macro rs data macro) = Neutral \<and> strength (extract_macro rs data macro) = 0)"
proof (intro conjI impI)
  assume c: "confidence (extract_valuation rs data) = 0"
  have "valuation_scores data = []"
  proof (rule ccontr)
    assume ne: "valuation_scores data \<noteq> []"
    from py_round_pos[OF valuation_confident[OF ne]] c ne show False
      by (simp add: extract_valuation_def Let_def)
  qed
  then show "direction (extract_valuation rs data) = Neutral"
    and "strength (extract_valuation rs data) = 0"
    by (simp_all add: extract_valuation_def Let_def)
next
  assume c: "confidence (extract_macro rs data macro) = 0"
  have "macro_scores macro = []"
  proof (rule ccontr)
    assume ne: "macro_scores macro \<noteq> []"
    from py_round_pos[OF macro_confident[OF ne]] c ne show False
      by (simp add: extract_macro_def Let_def)
  qed
  then show "direction (extract_macro rs data macro) = Neutral"
    and "strength (extract_macro rs data macro) = 0"
    by (simp_all add: extract_macro_def Let_def)
qed


text \<open>
  C5 fails on the code. The technical extractor counts history, RSI and the moving averages
  towards confidence but also scores the 52-week position: on a price of 99 in a range of 50
  to 100 with nothing else known it returns bearish, strength 0.3, confidence 0. The momentum
  extractor gives confidence 0 below 10 rows of history but scores the 5-day return from 5
  rows on: on five rows that gained ten percent it returns bullish, strength 0.5, confidence 0.
\<close>
theorem zero_confidence_with_direction:
  "extract_technical rs only_52w_range =
     \<lparr>name = ''technical'', direction = Bearish, strength = 0.3, confidence = 0,
      reasoning = technical_reasoning rs only_52w_range Bearish\<rparr>
   \<and> extract_momentum rs five_rows_up =
     \<lparr>name = ''momentum'', direction = Bullish, strength = 0.5, confidence = 0,
      reasoning = momentum_reasoning rs five_rows_up Bullish\<rparr>"
proof
  have c: "assess_confidence_technical only_52w_range = 0"
    by (simp add: assess_confidence_technical_def only_52w_range_def empty_stock_def)
  have s: "technical_scores only_52w_range = [-0.3]"
    by (simp add: technical_scores_def score_rsi_def score_moving_averages_def
        score_52w_position_def only_52w_range_def empty_stock_def Let_def)
  have r: "py_round 0.3 2 = 0.3" "py_round 0 2 = 0"
    by (simp_all add: py_round_def round_half_even_def Let_def)
  show "extract_technical rs only_52w_range =
     \<lparr>name = ''technical'', direction = Bearish, strength = 0.3, confidence = 0,
      reasoning = technical_reasoning rs only_52w_range Bearish\<rparr>"
    by (simp add: extract_technical_def c s r Let_def)
next
  have c: "assess_confidence_momentum five_rows_up = 0"
    by (simp add: assess_confidence_momentum_def five_rows_up_def empty_stock_def frame_len_def)
  have s: "momentum_scores five_rows_up = [0.5]"
    by (simp add: momentum_scores_def score_price_trend_def score_volume_confirmation_def
        score_beta_momentum_def five_rows_up_def empty_stock_def frame_len_def iloc_neg_def
        np_div_def Let_def)
  have r: "py_round (1 / 2) 2 = 1 / 2" "py_round 0 2 = 0"
    by (simp_all add: py_round_def round_half_even_def Let_def)
  show "extract_momentum rs five_rows_up =
     \<lparr>name = ''momentum'', direction = Bullish, strength = 0.5, confidence = 0,
      reasoning = momentum_reasoning rs five_rows_up Bullish\<rparr>"
    by (simp add: extract_momentum_def c s r Let_def)
qed







end
